theory Spec2Isabelle
  imports Complex_Main "HOL-Library.Sublist" "HOL-Library.Product_Lexorder"
begin

section \<open>Python text primitives\<close>

text \<open>
  A Python \<open>str\<close> is modelled as a \<open>string\<close> holding its UTF-8 bytes. The two non-ASCII
  literals of the source are written as their byte sequences. The model of \<open>lower\<close>,
  \<open>strip\<close>, \<open>\d\<close> and \<open>\s\<close> is the ASCII one: bytes above 127 are left alone by
  \<open>lower\<close> and are neither digits nor white space.
\<close>

definition rupee :: string where
  "rupee = [CHR 0xE2, CHR 0x82, CHR 0xB9]"

definition star :: string where
  "star = [CHR 0xE2, CHR 0xAD, CHR 0x90]"

definition star_yes :: string where
  "star_yes = star @ '' YES''"

definition is_digit :: "char \<Rightarrow> bool" where
  "is_digit c = (48 \<le> (of_char c :: nat) \<and> (of_char c :: nat) \<le> 57)"

definition is_space :: "char \<Rightarrow> bool" where
  "is_space c = ((9 \<le> (of_char c :: nat) \<and> (of_char c :: nat) \<le> 13)
     \<or> (28 \<le> (of_char c :: nat) \<and> (of_char c :: nat) \<le> 32))"

definition lower_char :: "char \<Rightarrow> char" where
  "lower_char c = (if 65 \<le> (of_char c :: nat) \<and> (of_char c :: nat) \<le> 90
     then char_of ((of_char c :: nat) + 32) else c)"

definition lower :: "string \<Rightarrow> string" where
  "lower s = map lower_char s"

definition strip :: "string \<Rightarrow> string" where
  "strip s = rev (dropWhile is_space (rev (dropWhile is_space s)))"

text \<open>\<open>contains pat s\<close> is Python's \<open>pat in s\<close> on strings.\<close>

fun contains :: "string \<Rightarrow> string \<Rightarrow> bool" where
  "contains pat [] = (pat = [])"
| "contains pat (c # cs) = (prefix pat (c # cs) \<or> contains pat cs)"

text \<open>
  \<open>remove_all pat s\<close> is \<open>s.replace(pat, "")\<close> for a non-empty \<open>pat\<close>: the occurrences
  are found left to right and do not overlap.
\<close>

function remove_all :: "string \<Rightarrow> string \<Rightarrow> string" where
  "remove_all pat [] = []"
| "remove_all pat (c # cs) =
     (if pat \<noteq> [] \<and> prefix pat (c # cs)
      then remove_all pat (drop (length pat) (c # cs))
      else c # remove_all pat cs)"
  by pat_completeness auto
termination
  by (relation "measure (\<lambda>(pat, s). length s)") (auto simp: neq_Nil_conv)

text \<open>Python truthiness of the values the code tests.\<close>

definition truthy_str :: "string option \<Rightarrow> bool" where
  "truthy_str v = (case v of None \<Rightarrow> False | Some s \<Rightarrow> s \<noteq> [])"

definition truthy_num :: "rat option \<Rightarrow> bool" where
  "truthy_num v = (case v of None \<Rightarrow> False | Some x \<Rightarrow> x \<noteq> 0)"

section \<open>Data model\<close>

text \<open>
  \<open>property_data\<close> is the dictionary an adapter fills for one listing, with one field per
  key that some adapter sets to a value other than \<open>None\<close>; a key that is absent or
  \<open>None\<close> is \<open>None\<close>. A finite float is kept as the rational number it denotes.
\<close>

record property_data =
  source :: "string option"
  property :: "string option"
  project :: "string option"
  builder :: "string option"
  preferred_builder :: "string option"
  bhk :: "string option"
  price :: "string option"
  price_numeric :: "rat option"
  area :: "string option"
  area_in_sqft :: "string option"
  description :: "string option"
  rera :: "string option"
  property_url :: "string option"

definition empty_property_data :: property_data where
  "empty_property_data =
     \<lparr>source = None, property = None, project = None, builder = None,
      preferred_builder = None, bhk = None, price = None, price_numeric = None,
      area = None, area_in_sqft = None, description = None, rera = None,
      property_url = None\<rparr>"

text \<open>
  The search criteria held by a \<open>PropertyFinder\<close>, and \<open>all_data\<close>, kept row by row
  (the source keeps one list per column and appends to all of them together).
\<close>

record finder =
  bedrooms :: "string list"
  budget_max :: int
  rera_req :: string
  preferred_only :: bool
  all_data :: "property_data list"

text \<open>
  A cell of an imported table: a string, a number, or the missing value \<open>NaN\<close>. A row
  of the results is a scraped listing or a row of an imported table, its cells by column
  name.
\<close>

datatype cell = CStr string | CNum rat | CNaN

datatype result_row = Scraped property_data | Imported "(string \<times> cell) list"

record scraping_status =
  running :: bool
  progress :: nat
  message :: string
  current_site :: string
  properties_found :: nat
  results :: "result_row list option"

text \<open>
  The exceptions the model distinguishes, each with the name it is about; \<open>OtherError\<close>
  is a failure of a collaborator (the browser driver, the CSV reader), with its text.
\<close>

datatype py_exn = AttributeError string | TypeError string | NameError string
  | OtherError string

fun str_exn :: "py_exn \<Rightarrow> string" where
  "str_exn (AttributeError n) = n"
| "str_exn (TypeError n) = n"
| "str_exn (NameError n) = n"
| "str_exn (OtherError m) = m"

fun str_nat :: "nat \<Rightarrow> string" where
  "str_nat n =
     (if n < 10 then [char_of (48 + n)]
      else str_nat (n div 10) @ [char_of (48 + n mod 10)])"

declare str_nat.simps [simp del]

section \<open>Field extractors\<close>

text \<open>
  \<open>first_number s\<close> is \<open>re.findall(r"(\d+\.?\d*)", s)[0]\<close>, with \<open>None\<close> for the
  empty list of matches: the leftmost match starts at the first digit, takes the whole
  run of digits, then a dot if one follows, then the run of digits after the dot.
\<close>

definition first_number :: "string \<Rightarrow> string option" where
  "first_number s =
     (let r = dropWhile (\<lambda>c. \<not> is_digit c) s in
      if r = [] then None
      else
        let ds = takeWhile is_digit r in
        (case dropWhile is_digit r of
           [] \<Rightarrow> Some ds
         | c # r2 \<Rightarrow>
             if c = CHR ''.'' then Some (ds @ [c] @ takeWhile is_digit r2) else Some ds))"

definition digit_val :: "char \<Rightarrow> nat" where
  "digit_val c = (of_char c :: nat) - 48"

definition digits_val :: "string \<Rightarrow> nat" where
  "digits_val ds = foldl (\<lambda>a c. 10 * a + digit_val c) 0 ds"

text \<open>
  \<open>float_of_token t\<close> is the number that the decimal token \<open>t\<close> (digits, or digits, a dot
  and digits) denotes. Python's \<open>float(t)\<close> is the double nearest to it; the model keeps
  the exact value, and products are exact.
\<close>

definition float_of_token :: "string \<Rightarrow> rat" where
  "float_of_token t =
     (let ip = takeWhile is_digit t; fp = drop (Suc (length ip)) t in
      of_nat (digits_val ip) + of_nat (digits_val fp) / 10 ^ length fp)"

definition clean_price_text :: "string \<Rightarrow> string" where
  "clean_price_text s =
     strip (remove_all ''rs'' (remove_all rupee (remove_all '','' (lower s))))"

definition extract_price_numeric :: "string option \<Rightarrow> rat option" where
  "extract_price_numeric arg =
     (case arg of
        None \<Rightarrow> None
      | Some t \<Rightarrow>
          if t = [] then None
          else
            let price_text = clean_price_text t in
            (case first_number price_text of
               None \<Rightarrow> None
             | Some n \<Rightarrow>
                 let v = float_of_token n in
                 if contains ''crore'' price_text \<or> contains ''cr'' price_text
                 then Some (v * 10000000)
                 else if contains ''lakh'' price_text \<or> contains ''lac'' price_text
                 then Some (v * 100000)
                 else if contains ''k'' price_text
                 then Some (v * 1000)
                 else Some v))"

text \<open>
  \<open>bhk_match_at s\<close> is the first group of a match of \<open>(\d+)\s*(?:bhk|bedroom|bh)\<close>
  that starts at the head of \<open>s\<close>. The digits and the white space are matched greedily;
  giving back a digit or a space never helps, since the alternatives start with a letter.
  \<open>bhk_search\<close> is \<open>re.search\<close>: the leftmost start position that matches.
\<close>

definition bhk_match_at :: "string \<Rightarrow> string option" where
  "bhk_match_at s =
     (let ds = takeWhile is_digit s; r = dropWhile is_space (dropWhile is_digit s) in
      if ds \<noteq> [] \<and> (prefix ''bhk'' r \<or> prefix ''bedroom'' r \<or> prefix ''bh'' r)
      then Some ds else None)"

fun bhk_search :: "string \<Rightarrow> string option" where
  "bhk_search [] = None"
| "bhk_search (c # cs) =
     (case bhk_match_at (c # cs) of Some ds \<Rightarrow> Some ds | None \<Rightarrow> bhk_search cs)"

definition extract_bhk :: "string \<Rightarrow> string option" where
  "extract_bhk text = (if text = [] then None else bhk_search (lower text))"

definition preferred_builders :: "string list" where
  "preferred_builders =
     [''prestige'', ''sobha'', ''brigade'', ''puravankara'', ''godrej'', ''embassy'',
      ''l&t'', ''l & t'', ''salarpuria'', ''sattva'', ''assetz'', ''casagrand'']"

definition check_preferred_builder :: "string option \<Rightarrow> bool" where
  "check_preferred_builder arg =
     (case arg of
        None \<Rightarrow> False
      | Some t \<Rightarrow>
          if t = [] then False
          else list_ex (\<lambda>b. contains b (lower t)) preferred_builders)"

text \<open>\<open>py_str\<close> is \<open>str(x)\<close>, and an f-string field, for a value that is a string or \<open>None\<close>.\<close>

definition py_str :: "string option \<Rightarrow> string" where
  "py_str v = (case v of None \<Rightarrow> ''None'' | Some s \<Rightarrow> s)"

section \<open>Validation\<close>

definition validate_property :: "finder \<Rightarrow> property_data \<Rightarrow> bool" where
  "validate_property self pd =
     (if budget_max self \<noteq> 0 \<and> truthy_num (price_numeric pd)
         \<and> (case price_numeric pd of None \<Rightarrow> False
             | Some p \<Rightarrow> p > of_int (budget_max self))
      then False
      else if truthy_str (bhk pd)
         \<and> (case bhk pd of None \<Rightarrow> False | Some b \<Rightarrow> b \<notin> set (bedrooms self))
      then False
      else if preferred_only self \<and> preferred_builder pd \<noteq> Some star_yes
      then False
      else True)"

section \<open>Accumulating results\<close>

text \<open>
  \<open>add_property source property_data\<close> appends the row to \<open>all_data\<close> and then the row,
  with its \<open>Source\<close> set, to the live results. Appending to results that are \<open>None\<close>
  raises after \<open>all_data\<close> has grown.
\<close>

type_synonym world = "finder \<times> scraping_status"

definition add_property ::
  "string \<Rightarrow> property_data \<Rightarrow> world \<Rightarrow> py_exn option \<times> world" where
  "add_property src pd w =
     (let self = (fst w)\<lparr>all_data := all_data (fst w) @ [pd]\<rparr>;
          new_prop = pd\<lparr>source := Some src\<rparr>
      in case results (snd w) of
           None \<Rightarrow> (Some (AttributeError ''append''), (self, snd w))
         | Some rs \<Rightarrow> (None, (self, (snd w)\<lparr>results := Some (rs @ [Scraped new_prop])\<rparr>)))"

text \<open>
  A call \<open>self.add_property(...)\<close> with its positional arguments. The method takes two,
  \<open>source\<close> and \<open>property_data\<close>; a call with another number of arguments raises
  \<open>TypeError\<close> before the body runs. The source has no call with two arguments of other
  kinds than a string and a dictionary.
\<close>

datatype arg = ArgStr string | ArgDict property_data

fun call_add_property :: "arg list \<Rightarrow> world \<Rightarrow> py_exn option \<times> world" where
  "call_add_property [ArgStr src, ArgDict pd] w = add_property src pd w"
| "call_add_property args w = (Some (TypeError ''add_property''), w)"

text \<open>
  The names that an instance of \<open>PropertyFinder\<close> has: the attributes set by
  \<open>__init__\<close> and the methods of the class. Looking up another name raises
  \<open>AttributeError\<close>.
\<close>

definition finder_attributes :: "string list" where
  "finder_attributes =
     [''driver_path'', ''driver'', ''bedrooms'', ''budget_max'', ''rera_req'',
      ''preferred_only'', ''preferred_builders'', ''all_data'', ''setup_driver'',
      ''random_delay'', ''extract_price_numeric'', ''extract_bhk'',
      ''check_preferred_builder'', ''add_property'', ''validate_property'',
      ''build_99acres_url'', ''scrape_99acres'', ''build_magicbricks_url'',
      ''scrape_magicbricks'', ''build_housing_url'', ''scrape_housing'', ''scrape_all'',
      ''get_results_df'']"

definition getattr_finder :: "string \<Rightarrow> py_exn option" where
  "getattr_finder name =
     (if name \<in> set finder_attributes then None else Some (AttributeError name))"

section \<open>Site adapters\<close>

text \<open>
  A listing fragment as the adapters see it: the stripped text of each sub-fragment that
  the selectors find (\<open>None\<close> when none is found, or when the guarded lookup raised),
  whether some text of the fragment matches \<open>rera\<close>, the \<open>href\<close> of the link that the
  99acres and Housing.com adapters pick, and the \<open>href\<close>s of all links, for MagicBricks.
\<close>

record fragment =
  title_elem :: "string option"
  project_elem :: "string option"
  price_elem :: "string option"
  area_elem :: "string option"
  desc_elem :: "string option"
  rera_found :: bool
  link_href :: "string option"
  links :: "string list"

text \<open>What fetching one results page gives: an exception, or the listing fragments.\<close>

datatype page = PageError | Page "fragment list"

definition rera_of :: "fragment \<Rightarrow> string option" where
  "rera_of prop = Some (if rera_found prop then ''Yes'' else ''Not Mentioned'')"

subsection \<open>99acres\<close>

definition bhk_found_99acres :: "string \<Rightarrow> string" where
  "bhk_found_99acres text_for_bhk =
     (if contains ''1 bhk'' text_for_bhk \<or> contains ''1bhk'' text_for_bhk then ''1''
      else if contains ''2 bhk'' text_for_bhk \<or> contains ''2bhk'' text_for_bhk then ''2''
      else if contains ''3 bhk'' text_for_bhk \<or> contains ''3bhk'' text_for_bhk then ''3''
      else if contains ''4 bhk'' text_for_bhk \<or> contains ''4bhk'' text_for_bhk then ''4''
      else ''Unknown'')"

text \<open>
  The dictionary that the 99acres adapter has built when it reaches the preferred-builder
  check, or \<open>None\<close> when the client-side budget filter skips the listing.
\<close>

definition property_99acres :: "finder \<Rightarrow> fragment \<Rightarrow> property_data option" where
  "property_99acres self prop =
     (let title = (case title_elem prop of None \<Rightarrow> ''Unknown Property'' | Some t \<Rightarrow> t);
          pn = extract_price_numeric (price_elem prop)
      in if budget_max self \<noteq> 0 \<and> truthy_num pn
            \<and> (case pn of None \<Rightarrow> False | Some p \<Rightarrow> p > of_int (budget_max self))
         then None
         else
           let desc = (case desc_elem prop of None \<Rightarrow> title | Some d \<Rightarrow> d);
               url = (case link_href prop of
                        None \<Rightarrow> None
                      | Some href \<Rightarrow>
                          if href = [] then None
                          else if prefix ''http'' href then Some href
                          else Some (''https://www.99acres.com'' @ href))
           in Some \<lparr>source = Some ''99acres'', property = Some title,
                project = project_elem prop, builder = project_elem prop,
                preferred_builder = None,
                bhk = Some (bhk_found_99acres (lower (title @ '' '' @ desc))),
                price = price_elem prop, price_numeric = pn,
                area = area_elem prop, area_in_sqft = area_elem prop,
                description = Some desc, rera = rera_of prop, property_url = url\<rparr>)"

text \<open>
  One pass of the body of the loop over the fragments of a 99acres page, with the
  exception that the \<open>except\<close> clause of the loop absorbs, if one was raised. The
  preferred-builder flag is asked of \<open>self.is_preferred_builder\<close> when the builder is
  known, and the record is handed to \<open>self.add_property\<close> as its only argument.
\<close>

definition listing_99acres :: "fragment \<Rightarrow> world \<Rightarrow> py_exn option \<times> world" where
  "listing_99acres prop w =
     (case property_99acres (fst w) prop of
        None \<Rightarrow> (None, w)
      | Some pd \<Rightarrow>
          if truthy_str (builder pd)
          then (case getattr_finder ''is_preferred_builder'' of
                  Some e \<Rightarrow> (Some e, w)
                | None \<Rightarrow> call_add_property [ArgDict pd] w)
          else call_add_property [ArgDict (pd\<lparr>preferred_builder := Some ''No''\<rparr>)] w)"

fun boxes_99acres :: "fragment list \<Rightarrow> world \<Rightarrow> world" where
  "boxes_99acres [] w = w"
| "boxes_99acres (prop # props) w =
     (if \<not> running (snd w) then w
      else boxes_99acres props (snd (listing_99acres prop w)))"

fun pages_99acres :: "(nat \<Rightarrow> page) \<Rightarrow> nat \<Rightarrow> nat list \<Rightarrow> world \<Rightarrow> world" where
  "pages_99acres fetch max_pages [] w = w"
| "pages_99acres fetch max_pages (p # ps) w =
     (if \<not> running (snd w) then w
      else
        let w1 = (fst w, (snd w)\<lparr>message :=
                   ''Scraping 99acres page '' @ str_nat p @ ''/'' @ str_nat max_pages\<rparr>)
        in case fetch p of
             PageError \<Rightarrow> pages_99acres fetch max_pages ps w1
           | Page property_boxes \<Rightarrow>
               if property_boxes = [] then pages_99acres fetch max_pages ps w1
               else pages_99acres fetch max_pages ps (boxes_99acres property_boxes w1))"

definition scrape_99acres :: "(nat \<Rightarrow> page) \<Rightarrow> nat \<Rightarrow> world \<Rightarrow> world" where
  "scrape_99acres fetch max_pages w =
     pages_99acres fetch max_pages [1 ..< max_pages + 1]
       (fst w, (snd w)\<lparr>current_site := ''99acres''\<rparr>)"

subsection \<open>MagicBricks\<close>

definition magicbricks_url :: "string list \<Rightarrow> string option" where
  "magicbricks_url ls =
     (let prop_link =
            (case find (\<lambda>h. contains ''property-detail'' h \<or> contains ''/buy/'' h) ls of
               Some h \<Rightarrow> Some h
             | None \<Rightarrow> (case ls of [] \<Rightarrow> None | h # _ \<Rightarrow> Some h))
      in case prop_link of
           None \<Rightarrow> None
         | Some l \<Rightarrow>
             if l \<noteq> [] \<and> prefix ''http'' l then Some l
             else if l \<noteq> [] then Some (''https://www.magicbricks.com'' @ l)
             else None)"

definition property_magicbricks :: "fragment \<Rightarrow> property_data" where
  "property_magicbricks prop =
     \<lparr>source = None, property = title_elem prop,
      project = project_elem prop, builder = project_elem prop,
      preferred_builder =
        Some (if check_preferred_builder (project_elem prop) then star_yes else ''No''),
      bhk = extract_bhk (py_str (title_elem prop)),
      price = price_elem prop, price_numeric = extract_price_numeric (price_elem prop),
      area = area_elem prop, area_in_sqft = area_elem prop,
      description = None, rera = rera_of prop,
      property_url = magicbricks_url (links prop)\<rparr>"

text \<open>
  One pass of the body of the loop over the fragments of a page, for the two adapters
  that validate: the record is added under the site's name when it is valid, and the
  count of found properties is then brought up to date.
\<close>

definition listing_validated ::
  "string \<Rightarrow> property_data \<Rightarrow> world \<Rightarrow> py_exn option \<times> world" where
  "listing_validated site pd w =
     (if validate_property (fst w) pd
      then (case call_add_property [ArgStr site, ArgDict pd] w of
              (Some e, w2) \<Rightarrow> (Some e, w2)
            | (None, w2) \<Rightarrow>
                (None, (fst w2,
                   (snd w2)\<lparr>properties_found := length (all_data (fst w2))\<rparr>)))
      else (None, w))"

definition listing_magicbricks :: "fragment \<Rightarrow> world \<Rightarrow> py_exn option \<times> world" where
  "listing_magicbricks prop w = listing_validated ''MagicBricks'' (property_magicbricks prop) w"

subsection \<open>Housing.com\<close>

definition housing_url :: "string option \<Rightarrow> string option" where
  "housing_url l =
     (case l of
        None \<Rightarrow> None
      | Some href \<Rightarrow>
          if href = [] then None
          else if prefix ''/'' href then Some (''https://housing.com'' @ href)
          else Some href)"

text \<open>The Housing.com adapter reads the builder from the subtitle, here \<open>project_elem\<close>.\<close>

definition property_housing :: "fragment \<Rightarrow> property_data" where
  "property_housing prop =
     \<lparr>source = None, property = title_elem prop,
      project = project_elem prop, builder = project_elem prop,
      preferred_builder =
        Some (if check_preferred_builder (project_elem prop) then star_yes else ''No''),
      bhk = extract_bhk (py_str (title_elem prop)),
      price = price_elem prop, price_numeric = extract_price_numeric (price_elem prop),
      area = area_elem prop, area_in_sqft = area_elem prop,
      description = None, rera = rera_of prop,
      property_url = housing_url (link_href prop)\<rparr>"

definition listing_housing :: "fragment \<Rightarrow> world \<Rightarrow> py_exn option \<times> world" where
  "listing_housing prop w = listing_validated ''Housing.com'' (property_housing prop) w"

text \<open>
  The loops of the two validating adapters, over the fragments of a page and over the
  pages. A page without fragments ends the site; a page that raises is skipped.
\<close>

fun boxes_validated ::
  "(fragment \<Rightarrow> world \<Rightarrow> py_exn option \<times> world) \<Rightarrow> fragment list \<Rightarrow> world \<Rightarrow> world" where
  "boxes_validated listing [] w = w"
| "boxes_validated listing (prop # props) w =
     (if \<not> running (snd w) then w
      else boxes_validated listing props (snd (listing prop w)))"

fun pages_validated ::
  "string \<Rightarrow> (fragment \<Rightarrow> world \<Rightarrow> py_exn option \<times> world) \<Rightarrow> (nat \<Rightarrow> page) \<Rightarrow> nat
     \<Rightarrow> nat list \<Rightarrow> world \<Rightarrow> world" where
  "pages_validated site listing fetch max_pages [] w = w"
| "pages_validated site listing fetch max_pages (p # ps) w =
     (if \<not> running (snd w) then w
      else
        let w1 = (fst w, (snd w)\<lparr>message :=
                   ''Scraping '' @ site @ '' page '' @ str_nat p @ ''/'' @ str_nat max_pages\<rparr>)
        in case fetch p of
             PageError \<Rightarrow> pages_validated site listing fetch max_pages ps w1
           | Page property_boxes \<Rightarrow>
               if property_boxes = [] then w1
               else pages_validated site listing fetch max_pages ps
                      (boxes_validated listing property_boxes w1))"

definition scrape_magicbricks :: "(nat \<Rightarrow> page) \<Rightarrow> nat \<Rightarrow> world \<Rightarrow> world" where
  "scrape_magicbricks fetch max_pages w =
     pages_validated ''MagicBricks'' listing_magicbricks fetch max_pages
       [1 ..< max_pages + 1] (fst w, (snd w)\<lparr>current_site := ''MagicBricks''\<rparr>)"

definition scrape_housing :: "(nat \<Rightarrow> page) \<Rightarrow> nat \<Rightarrow> world \<Rightarrow> world" where
  "scrape_housing fetch max_pages w =
     pages_validated ''Housing.com'' listing_housing fetch max_pages
       [1 ..< max_pages + 1] (fst w, (snd w)\<lparr>current_site := ''Housing.com''\<rparr>)"

section \<open>Orchestration\<close>

text \<open>
  What the run meets outside the program: whether the browser driver starts, and what
  each site returns for each page number.
\<close>

record env =
  driver_starts :: bool
  fetch_99acres :: "nat \<Rightarrow> page"
  fetch_magicbricks :: "nat \<Rightarrow> page"
  fetch_housing :: "nat \<Rightarrow> page"

definition site_enabled :: "(string \<rightharpoonup> bool) \<Rightarrow> string \<Rightarrow> bool" where
  "site_enabled sites name = (case sites name of None \<Rightarrow> True | Some b \<Rightarrow> b)"

definition default_sites :: "string \<rightharpoonup> bool" where
  "default_sites = [''99acres'' \<mapsto> True, ''magicbricks'' \<mapsto> True, ''housing'' \<mapsto> True]"

definition scrape_all ::
  "env \<Rightarrow> nat \<Rightarrow> (string \<rightharpoonup> bool) option \<Rightarrow> world \<Rightarrow> py_exn option \<times> world" where
  "scrape_all e pages_per_site sites_arg w =
     (let sites = (case sites_arg of None \<Rightarrow> default_sites | Some m \<Rightarrow> m) in
      if \<not> driver_starts e then (Some (OtherError ''webdriver''), w)
      else
        let w1 = (if site_enabled sites ''99acres'' \<and> running (snd w)
                  then scrape_99acres (fetch_99acres e) pages_per_site w else w);
            w2 = (if site_enabled sites ''magicbricks'' \<and> running (snd w1)
                  then scrape_magicbricks (fetch_magicbricks e) pages_per_site w1 else w1);
            w3 = (if site_enabled sites ''housing'' \<and> running (snd w2)
                  then scrape_housing (fetch_housing e) pages_per_site w2 else w2)
        in (None, w3))"

section \<open>Aggregation\<close>

text \<open>
  The two table operations of \<open>get_results_df\<close> are library calls;
  they are modelled by what the library documents. \<open>drop_duplicates\<close> with
  \<open>keep="first"\<close> keeps a row when no earlier row has the same values in the subset
  columns, missing values being equal to each other. \<open>sort_values\<close> on two ascending
  columns orders the rows by the pair of their values, puts a missing value of a column
  after every present one, and is an indirect stable sort of the rows.
\<close>

fun drop_duplicates :: "('a \<Rightarrow> 'k) \<Rightarrow> 'k list \<Rightarrow> 'a list \<Rightarrow> 'a list" where
  "drop_duplicates cols seen [] = []"
| "drop_duplicates cols seen (r # rs) =
     (if cols r \<in> set seen then drop_duplicates cols seen rs
      else r # drop_duplicates cols (cols r # seen) rs)"

definition dedup_key :: "property_data \<Rightarrow> string option \<times> string option" where
  "dedup_key r = (property r, price r)"

definition sort_preferred :: "property_data \<Rightarrow> nat" where
  "sort_preferred r = (if contains star (py_str (preferred_builder r)) then 0 else 1)"

definition price_key :: "property_data \<Rightarrow> nat \<times> rat" where
  "price_key r = (case price_numeric r of None \<Rightarrow> (1, 0) | Some p \<Rightarrow> (0, p))"

definition sort_values_key :: "property_data \<Rightarrow> nat \<times> nat \<times> rat" where
  "sort_values_key r = (sort_preferred r, price_key r)"

definition get_results_df :: "finder \<Rightarrow> property_data list" where
  "get_results_df self =
     (let df = all_data self in
      if length df > 0
      then sort_key sort_values_key (drop_duplicates dedup_key [] df)
      else df)"

section \<open>Request handlers\<close>

datatype body = ErrorBody string | StatusBody string
  | ImportBody nat "result_row list" | FileBody

datatype response = Response nat body

subsection \<open>Starting a run\<close>

datatype bhk_json = BhkList "string list" | BhkStr string

text \<open>The JSON object of a start request; a key that is absent is \<open>None\<close>.\<close>

record start_request =
  req_pages :: "nat option"
  req_budget :: "int option"
  req_bhk :: "bhk_json option"
  req_rera :: "string option"
  req_preferred :: "bool option"
  req_sites :: "(string \<rightharpoonup> bool) option"

text \<open>The values that the worker thread of a run closes over.\<close>

record thread_args =
  t_pages :: nat
  t_budget_max :: int
  t_bhk :: "string list"
  t_rera :: string
  t_preferred :: bool
  t_sites :: "string \<rightharpoonup> bool"

fun split_comma :: "string \<Rightarrow> string list" where
  "split_comma [] = [[]]"
| "split_comma (c # cs) =
     (if c = CHR '','' then [] # split_comma cs
      else (case split_comma cs of [] \<Rightarrow> [[c]] | w # ws \<Rightarrow> (c # w) # ws))"

definition start_scraping ::
  "start_request \<Rightarrow> scraping_status \<Rightarrow> response \<times> scraping_status \<times> thread_args option" where
  "start_scraping data st =
     (if running st
      then (Response 400 (ErrorBody ''Scraping already in progress''), st, None)
      else
        let pages = (case req_pages data of None \<Rightarrow> 5 | Some n \<Rightarrow> n);
            budget_max = (case req_budget data of None \<Rightarrow> 80 | Some b \<Rightarrow> b) * 100000;
            bhk = (case req_bhk data of
                     None \<Rightarrow> [''2'', ''3'']
                   | Some (BhkList l) \<Rightarrow> l
                   | Some (BhkStr t) \<Rightarrow> split_comma t);
            rera = (case req_rera data of None \<Rightarrow> ''Yes'' | Some r \<Rightarrow> r);
            preferred = (case req_preferred data of None \<Rightarrow> False | Some b \<Rightarrow> b);
            sites = (case req_sites data of None \<Rightarrow> default_sites | Some m \<Rightarrow> m)
        in (Response 200 (StatusBody ''started''),
            \<lparr>running = True, progress = 0, message = ''Starting scraper...'',
             current_site = [], properties_found = 0, results = None\<rparr>,
            Some \<lparr>t_pages = pages, t_budget_max = budget_max, t_bhk = bhk,
                  t_rera = rera, t_preferred = preferred, t_sites = sites\<rparr>))"

definition new_finder :: "thread_args \<Rightarrow> finder" where
  "new_finder a =
     \<lparr>bedrooms = t_bhk a, budget_max = t_budget_max a, rera_req = t_rera a,
      preferred_only = t_preferred a, all_data = []\<rparr>"

definition scrape_thread :: "env \<Rightarrow> thread_args \<Rightarrow> scraping_status \<Rightarrow> scraping_status" where
  "scrape_thread e a st =
     (case scrape_all e (t_pages a) (Some (t_sites a))
             (new_finder a, st\<lparr>results := Some []\<rparr>) of
        (Some ex, w) \<Rightarrow>
          (snd w)\<lparr>message := ''Error: '' @ str_exn ex, running := False\<rparr>
      | (None, w) \<Rightarrow>
          let df = get_results_df (fst w) in
          (snd w)\<lparr>results := Some (map Scraped df),
                   message := ''Completed! Found '' @ str_nat (length df) @ '' properties'',
                   progress := 100, running := False\<rparr>)"

subsection \<open>Export and import\<close>

text \<open>
  The names bound at module level: the imports, the application, the status, the class
  and the handlers. A function that reads another name as a global raises
  \<open>NameError\<close>.
\<close>

definition module_globals :: "string list" where
  "module_globals =
     [''pd'', ''time'', ''random'', ''BeautifulSoup'', ''webdriver'', ''Service'',
      ''Options'', ''By'', ''WebDriverWait'', ''EC'', ''re'', ''os'', ''Flask'',
      ''render_template'', ''request'', ''jsonify'', ''send_file'', ''redirect'',
      ''url_for'', ''Thread'', ''json'', ''datetime'', ''ProxyRequests'',
      ''PROXY_AVAILABLE'', ''app'', ''scraping_status'', ''PropertyFinder'', ''index'',
      ''start_scraping'', ''get_status'', ''stop_scraping'', ''view_results'',
      ''export_csv'', ''import_csv_route'', ''get_index_template'']"

text \<open>
  \<open>export_csv\<close> answers 400 when there are no results. Otherwise it reads, in this
  order, the globals \<open>io\<close>, \<open>csv\<close>, \<open>output\<close> and \<open>filename\<close>, and sends
  \<open>output\<close> as a file; the statements that would write the header and the rows stand
  after the \<open>return\<close> of \<open>import_csv_route\<close> and are never run.
\<close>

definition export_csv :: "scraping_status \<Rightarrow> py_exn + response" where
  "export_csv st =
     (if results st = None \<or> results st = Some []
      then Inr (Response 400 (ErrorBody ''No results to export''))
      else (case find (\<lambda>n. n \<notin> set module_globals)
                   [''io'', ''csv'', ''output'', ''filename''] of
              Some n \<Rightarrow> Inl (NameError n)
            | None \<Rightarrow> Inr (Response 200 FileBody)))"

record upload =
  filename :: string
  content :: string

definition fillna :: "(string \<times> cell) list \<Rightarrow> (string \<times> cell) list" where
  "fillna row = map (\<lambda>(k, v). (k, if v = CNaN then CStr [] else v)) row"

text \<open>
  \<open>import_csv_route read_csv file st\<close>: \<open>file\<close> is the upload under the key \<open>file\<close>,
  if there is one, and \<open>read_csv\<close> is the library's parser, which raises or gives the
  rows of the table. An upload with a name is true, so the body of \<open>if file\<close> runs and
  returns. Building the JSON answer is taken not to raise.
\<close>

definition import_csv_route ::
  "(string \<Rightarrow> py_exn + (string \<times> cell) list list) \<Rightarrow> upload option \<Rightarrow> scraping_status
     \<Rightarrow> response \<times> scraping_status" where
  "import_csv_route read_csv file_arg st =
     (case file_arg of
        None \<Rightarrow> (Response 400 (ErrorBody ''No file uploaded''), st)
      | Some file \<Rightarrow>
          if filename file = [] then (Response 400 (ErrorBody ''No file selected''), st)
          else (case read_csv (content file) of
                  Inl e \<Rightarrow>
                    (Response 500 (ErrorBody (''Failed to parse CSV: '' @ str_exn e)), st)
                | Inr df \<Rightarrow>
                    let rs = map (\<lambda>r. Imported (fillna r)) df in
                    (Response 200 (ImportBody (length rs) rs),
                     st\<lparr>results := Some rs, properties_found := length rs,
                        message := ''Imported '' @ str_nat (length rs)
                                     @ '' properties from CSV''\<rparr>)))"

section \<open>The ranking of the specification\<close>

text \<open>
  Written from the words of the specification, to be compared with the sort of
  \<open>get_results_df\<close>: a listing may stand before another when it is of a preferred builder
  and the other is not, or when both are in the same tier and the other has no numeric
  price, or both have one and the first one's is not the greater.
\<close>

definition is_preferred :: "property_data \<Rightarrow> bool" where
  "is_preferred r = (sort_preferred r = 0)"

definition spec_ranks_before :: "property_data \<Rightarrow> property_data \<Rightarrow> bool" where
  "spec_ranks_before a b =
     ((is_preferred a \<and> \<not> is_preferred b)
      \<or> (is_preferred a = is_preferred b
          \<and> (case price_numeric b of
                None \<Rightarrow> True
              | Some y \<Rightarrow> (case price_numeric a of None \<Rightarrow> False | Some x \<Rightarrow> x \<le> y))))"

section \<open>Shapes of the BHK value\<close>

text \<open>
  The shape of the value that \<open>extract_bhk\<close> gives, \<open>None\<close> or a non-empty string of
  digits; the five values of the specification; and the invariant of a run that the
  rows of \<open>all_data\<close> and of the live results are scraped rows of that shape.
\<close>

definition bhk_shape :: "string option \<Rightarrow> bool" where
  "bhk_shape v = (case v of None \<Rightarrow> True | Some ds \<Rightarrow> ds \<noteq> [] \<and> list_all is_digit ds)"

definition five_values :: "string list" where
  "five_values = [''1'', ''2'', ''3'', ''4'', ''Unknown'']"

definition scraped_bhk_shape :: "result_row \<Rightarrow> bool" where
  "scraped_bhk_shape row = (case row of Scraped pd \<Rightarrow> bhk_shape (bhk pd) | Imported cells \<Rightarrow> False)"

definition bhk_inv :: "world \<Rightarrow> bool" where
  "bhk_inv w = (list_all (\<lambda>pd. bhk_shape (bhk pd)) (all_data (fst w))
     \<and> list_all scraped_bhk_shape (case results (snd w) of None \<Rightarrow> [] | Some rs \<Rightarrow> rs))"

section \<open>Example inputs\<close>

definition finder0 :: finder where
  "finder0 = \<lparr>bedrooms = [''2'', ''3''], budget_max = 8000000, rera_req = ''Yes'',
      preferred_only = False, all_data = []\<rparr>"

definition idle :: scraping_status where
  "idle = \<lparr>running = False, progress = 0, message = ''Ready to start'',
      current_site = [], properties_found = 0, results = None\<rparr>"

definition listing_a :: property_data where
  "listing_a = empty_property_data\<lparr>property := Some ''2 BHK Flat'', price := Some ''75 Lac'',
      price_numeric := Some 7500000, bhk := Some ''2''\<rparr>"

definition request80 :: start_request where
  "request80 = \<lparr>req_pages = Some 1, req_budget = Some 80,
      req_bhk = Some (BhkList [''2'', ''3'']), req_rera = Some ''Yes'',
      req_preferred = Some False, req_sites = None\<rparr>"

text \<open>A reader that fails on an empty file and reads any other as one row.\<close>

definition reader0 :: "string \<Rightarrow> py_exn + (string \<times> cell) list list" where
  "reader0 text = (if text = [] then Inl (OtherError ''No columns to parse from file'')
     else Inr [[(''Property'', CStr text), (''Price'', CNaN)]])"

definition fragment_a :: fragment where
  "fragment_a = \<lparr>title_elem = Some ''2 BHK Apartment in Whitefield'',
      project_elem = Some ''Prestige Lakeside Habitat'', price_elem = Some ''75 Lac'',
      area_elem = Some ''1150 sqft'', desc_elem = None, rera_found = True,
      link_href = Some ''/2-bhk-whitefield'', links = [''/2-bhk-whitefield'']\<rparr>"

definition fragment_b :: fragment where
  "fragment_b = \<lparr>title_elem = Some ''Studio Apartment'', project_elem = None,
      price_elem = Some ''45 Lac'', area_elem = None, desc_elem = None, rera_found = False,
      link_href = None, links = []\<rparr>"

definition env0 :: env where
  "env0 = \<lparr>driver_starts = True,
      fetch_99acres = (\<lambda>p. if p = 1 then Page [fragment_a, fragment_b] else Page []),
      fetch_magicbricks = (\<lambda>p. Page [fragment_a]),
      fetch_housing = (\<lambda>p. Page [fragment_a])\<rparr>"

definition only_99acres :: thread_args where
  "only_99acres = \<lparr>t_pages = 1, t_budget_max = 8000000, t_bhk = [''2'', ''3''],
      t_rera = ''Yes'', t_preferred = False,
      t_sites = [''99acres'' \<mapsto> True, ''magicbricks'' \<mapsto> False, ''housing'' \<mapsto> False]\<rparr>"

definition started :: scraping_status where
  "started = \<lparr>running = True, progress = 0, message = ''Starting scraper...'',
      current_site = [], properties_found = 0, results = None\<rparr>"

definition row_p5 :: property_data where
  "row_p5 = empty_property_data\<lparr>property := Some ''A'', preferred_builder := Some ''No'',
      price_numeric := Some 5000000\<rparr>"

definition row_p9 :: property_data where
  "row_p9 = empty_property_data\<lparr>property := Some ''B'', preferred_builder := Some star_yes,
      price_numeric := Some 9000000\<rparr>"

definition row_p3 :: property_data where
  "row_p3 = empty_property_data\<lparr>property := Some ''C'', preferred_builder := Some star_yes,
      price_numeric := Some 3000000\<rparr>"

definition row_dup :: property_data where
  "row_dup = row_p3\<lparr>source := Some ''Housing.com'', price_numeric := Some 1\<rparr>"

definition fragment_studio :: fragment where
  "fragment_studio = \<lparr>title_elem = Some ''Studio Apartment'', project_elem = Some ''Sobha Dream Acres'',
      price_elem = Some ''45 Lac'', area_elem = None, desc_elem = None, rera_found = False,
      link_href = None, links = []\<rparr>"

definition fragment_villa :: fragment where
  "fragment_villa = \<lparr>title_elem = Some ''5 BHK Villa'', project_elem = None,
      price_elem = Some ''75 Lac'', area_elem = None, desc_elem = None, rera_found = False,
      link_href = None, links = []\<rparr>"

definition only_magicbricks :: thread_args where
  "only_magicbricks = \<lparr>t_pages = 1, t_budget_max = 8000000, t_bhk = [''2'', ''3''],
      t_rera = ''Yes'', t_preferred = False,
      t_sites = [''99acres'' \<mapsto> False, ''magicbricks'' \<mapsto> True, ''housing'' \<mapsto> False]\<rparr>"

definition env_studio :: env where
  "env_studio = \<lparr>driver_starts = True,
      fetch_99acres = (\<lambda>p. Page []),
      fetch_magicbricks = (\<lambda>p. if p = 1 then Page [fragment_studio] else Page []),
      fetch_housing = (\<lambda>p. Page [])\<rparr>"

section \<open>Properties\<close>

subsection \<open>Validation\<close>

text \<open>
  Claim C8. The result of validation is the same for every value of the listing's
  \<open>rera\<close> field and every value of the finder's \<open>rera_req\<close>.
\<close>

theorem validate_property_ignores_rera:
  "validate_property (self\<lparr>rera_req := r1\<rparr>) (pd\<lparr>rera := v1\<rparr>)
     = validate_property (self\<lparr>rera_req := r2\<rparr>) (pd\<lparr>rera := v2\<rparr>)"
  by (simp add: validate_property_def split: option.splits)

theorem validate_property_ignores_rera_witness:
  "validate_property (finder0\<lparr>rera_req := ''Yes''\<rparr>) (listing_a\<lparr>rera := Some ''No''\<rparr>)
     = validate_property (finder0\<lparr>rera_req := ''No''\<rparr>) (listing_a\<lparr>rera := Some ''Yes''\<rparr>)"
  using validate_property_ignores_rera [where self = finder0 and pd = listing_a
      and ?r1.0 = "''Yes''" and ?v1.0 = "Some ''No''" and ?r2.0 = "''No''" and ?v2.0 = "Some ''Yes''"]
  by simp

text \<open>
  Claim C3, as the code has it. Validation rejects a listing on BHK grounds, that is, it
  rejects the listing and accepts the same listing without a BHK value, exactly when the
  BHK value is a non-empty string that is not among the wanted bedrooms. A listing
  without a BHK value is never rejected by this rule.
\<close>

theorem validate_bhk_rule:
  "validate_property self pd
     = (validate_property self (pd\<lparr>bhk := None\<rparr>)
        \<and> \<not> (\<exists>b. bhk pd = Some b \<and> b \<noteq> [] \<and> b \<notin> set (bedrooms self)))"
  by (auto simp add: validate_property_def truthy_str_def split: option.splits)

theorem validate_bhk_rule_witness:
  "validate_property finder0 (empty_property_data\<lparr>bhk := Some ''4''\<rparr>) = False
   \<and> validate_property finder0 (empty_property_data\<lparr>bhk := Some ''3''\<rparr>) = True
   \<and> validate_property finder0 (empty_property_data\<lparr>bhk := None\<rparr>) = True"
  using validate_bhk_rule [of finder0 "empty_property_data\<lparr>bhk := Some ''4''\<rparr>"]
    validate_bhk_rule [of finder0 "empty_property_data\<lparr>bhk := Some ''3''\<rparr>"]
  by (simp add: finder0_def empty_property_data_def validate_property_def truthy_str_def
      truthy_num_def)

text \<open>
  The string \<open>Unknown\<close>, which the 99acres adapter writes, is a BHK value like any other:
  with the bedrooms 2 and 3 wanted, the listing is rejected, and only because of it.
\<close>

theorem validate_rejects_unknown:
  "validate_property finder0 (empty_property_data\<lparr>bhk := None\<rparr>)
   \<and> \<not> validate_property finder0 (empty_property_data\<lparr>bhk := Some ''Unknown''\<rparr>)"
  by (simp add: finder0_def empty_property_data_def validate_property_def truthy_str_def
      truthy_num_def)

subsection \<open>Starting a run\<close>

text \<open>
  Claim C9, as the code has it. A start request that is accepted gives the run the
  budget ceiling of its \<open>budget\<close> value, 80 when there is none, times 100,000: the
  value is read in lakhs.
\<close>

theorem start_scraping_budget:
  "\<not> running st \<Longrightarrow>
   map_option (\<lambda>a. budget_max (new_finder a)) (snd (snd (start_scraping data st)))
     = Some ((case req_budget data of None \<Rightarrow> 80 | Some b \<Rightarrow> b) * 100000)"
  by (simp add: start_scraping_def new_finder_def Let_def)

theorem start_scraping_budget_witness:
  "\<not> running idle
   \<and> map_option (\<lambda>a. budget_max (new_finder a)) (snd (snd (start_scraping request80 idle)))
     = Some 8000000"
  using start_scraping_budget [of idle request80]
  by (simp add: idle_def request80_def)

text \<open>A budget of 80 gives the ceiling 8,000,000, not 80 times 1,000.\<close>

theorem start_scraping_budget_not_thousands:
  "map_option (\<lambda>a. budget_max (new_finder a)) (snd (snd (start_scraping request80 idle)))
     = Some 8000000 \<and> (8000000 :: int) \<noteq> 80 * 1000"
  by (simp add: start_scraping_def new_finder_def Let_def idle_def request80_def)

subsection \<open>Import and export\<close>

text \<open>
  Claim C10. When the reader fails on the uploaded file, the answer is 500 with the
  error's text and the status is the one before the request; and the status changes only
  when the reader has given a table.
\<close>

theorem import_csv_failure_atomic:
  "(filename upl \<noteq> [] \<and> read_csv (content upl) = Inl e \<longrightarrow>
      import_csv_route read_csv (Some upl) st
        = (Response 500 (ErrorBody (''Failed to parse CSV: '' @ str_exn e)), st))
   \<and> (snd (import_csv_route read_csv file_arg st) \<noteq> st \<longrightarrow>
        (\<exists>f df. file_arg = Some f \<and> read_csv (content f) = Inr df))"
  by (auto simp add: import_csv_route_def Let_def split: option.splits sum.splits)

theorem import_csv_failure_atomic_witness:
  "import_csv_route reader0 (Some \<lparr>filename = ''empty.csv'', content = []\<rparr>)
       (idle\<lparr>results := Some [Scraped listing_a]\<rparr>)
     = (Response 500 (ErrorBody ''Failed to parse CSV: No columns to parse from file''),
        idle\<lparr>results := Some [Scraped listing_a]\<rparr>)
   \<and> results (snd (import_csv_route reader0 (Some \<lparr>filename = ''one.csv'', content = ''x''\<rparr>)
       (idle\<lparr>results := Some [Scraped listing_a]\<rparr>)))
      = Some [Imported [(''Property'', CStr ''x''), (''Price'', CStr [])]]"
  using import_csv_failure_atomic [where upl = "\<lparr>filename = ''empty.csv'', content = []\<rparr>"
      and read_csv = reader0 and e = "OtherError ''No columns to parse from file''"
      and st = "idle\<lparr>results := Some [Scraped listing_a]\<rparr>"
      and file_arg = "Some \<lparr>filename = ''one.csv'', content = ''x''\<rparr>"]
  by (simp add: reader0_def import_csv_route_def fillna_def Let_def)

text \<open>
  Claim C2. With one result stored, the export raises \<open>NameError\<close> at its first use of
  \<open>io\<close>, so no file is made that an import could read back.
\<close>

theorem export_csv_raises:
  "export_csv (idle\<lparr>results := Some [Scraped listing_a]\<rparr>) = Inl (NameError ''io'')"
  by (simp add: export_csv_def idle_def module_globals_def)


subsection \<open>The 99acres adapter\<close>

lemma listing_99acres_outcome:
  "listing_99acres prop w =
     (case property_99acres (fst w) prop of
        None \<Rightarrow> (None, w)
      | Some pd \<Rightarrow>
          (Some (if truthy_str (builder pd) then AttributeError ''is_preferred_builder''
                 else TypeError ''add_property''), w))"
  by (simp add: listing_99acres_def getattr_finder_def finder_attributes_def
      split: option.splits)

lemma listing_99acres_world: "snd (listing_99acres prop w) = w"
  by (simp add: listing_99acres_outcome split: option.splits)

lemma boxes_99acres_world: "boxes_99acres props w = w"
  by (induction props) (simp_all add: listing_99acres_world)

lemma pages_99acres_world:
  "fst (pages_99acres fetch max_pages ps w) = fst w
   \<and> results (snd (pages_99acres fetch max_pages ps w)) = results (snd w)
   \<and> running (snd (pages_99acres fetch max_pages ps w)) = running (snd w)"
proof (induction ps arbitrary: w)
  case Nil
  show ?case by simp
next
  case (Cons p ps)
  show ?case
    by (simp add: Cons.IH boxes_99acres_world Let_def split: page.splits)
qed

lemma scrape_99acres_world:
  "fst (scrape_99acres fetch max_pages w) = fst w
   \<and> results (snd (scrape_99acres fetch max_pages w)) = results (snd w)"
  by (simp add: scrape_99acres_def pages_99acres_world)

lemma scrape_thread_only_99acres:
  assumes "t_sites a ''magicbricks'' = Some False" and "t_sites a ''housing'' = Some False"
  shows "results (scrape_thread e a st) = Some []"
proof (cases "driver_starts e")
  case False
  then show ?thesis
    by (simp add: scrape_thread_def scrape_all_def)
next
  case True
  then show ?thesis
    using assms
    by (simp add: scrape_thread_def scrape_all_def site_enabled_def Let_def
        scrape_99acres_world get_results_df_def new_finder_def)
qed

text \<open>
  Claim C1. One pass of the 99acres adapter over a listing fragment leaves the finder and
  the status as they were: the listing is skipped by the budget filter, or the pass
  raises, at \<open>is_preferred_builder\<close> when the builder is known and at the call of
  \<open>add_property\<close> otherwise. So the adapter adds no row to \<open>all_data\<close> or to the results,
  whatever the pages hold, and a run with the other two sites switched off ends with the
  empty list of results.
\<close>

theorem scrape_99acres_adds_nothing:
  "listing_99acres frag w =
     (case property_99acres (fst w) frag of
        None \<Rightarrow> (None, w)
      | Some pd \<Rightarrow>
          (Some (if truthy_str (builder pd) then AttributeError ''is_preferred_builder''
                 else TypeError ''add_property''), w))
   \<and> all_data (fst (scrape_99acres fetch max_pages w)) = all_data (fst w)
   \<and> results (snd (scrape_99acres fetch max_pages w)) = results (snd w)
   \<and> (t_sites a ''magicbricks'' = Some False \<and> t_sites a ''housing'' = Some False
        \<longrightarrow> results (scrape_thread e a st) = Some [])"
  using listing_99acres_outcome scrape_99acres_world scrape_thread_only_99acres
  by simp

lemma price_75_lac: "extract_price_numeric (Some ''75 Lac'') = Some 7500000"
  by code_simp

lemma price_45_lac: "extract_price_numeric (Some ''45 Lac'') = Some 4500000"
  by code_simp

lemma property_99acres_fragment_a:
  "\<exists>pd. property_99acres finder0 fragment_a = Some pd
     \<and> builder pd = Some ''Prestige Lakeside Habitat''"
  by (simp add: property_99acres_def finder0_def fragment_a_def price_75_lac truthy_num_def
      Let_def)

lemma property_99acres_fragment_b:
  "\<exists>pd. property_99acres finder0 fragment_b = Some pd \<and> builder pd = None"
  by (simp add: property_99acres_def finder0_def fragment_b_def price_45_lac truthy_num_def
      Let_def)

theorem scrape_99acres_adds_nothing_witness:
  "fst (listing_99acres fragment_a (finder0, started\<lparr>results := Some []\<rparr>))
     = Some (AttributeError ''is_preferred_builder'')
   \<and> fst (listing_99acres fragment_b (finder0, started\<lparr>results := Some []\<rparr>))
     = Some (TypeError ''add_property'')
   \<and> results (scrape_thread env0 only_99acres started) = Some []"
  using scrape_99acres_adds_nothing [where a = only_99acres and e = env0 and st = started
      and frag = fragment_a and w = "(finder0, started\<lparr>results := Some []\<rparr>)"]
    scrape_99acres_adds_nothing [where frag = fragment_b
      and w = "(finder0, started\<lparr>results := Some []\<rparr>)"]
    property_99acres_fragment_a property_99acres_fragment_b
  by (auto simp add: only_99acres_def truthy_str_def)


subsection \<open>Aggregation\<close>

lemma filter_drop_duplicates:
  "filter (\<lambda>r. cols r = k) (drop_duplicates cols seen xs)
     = (if k \<in> set seen then []
        else (case find (\<lambda>r. cols r = k) xs of None \<Rightarrow> [] | Some r \<Rightarrow> [r]))"
proof (induction xs arbitrary: seen)
  case Nil
  show ?case by simp
next
  case (Cons x xs)
  show ?case
  proof (cases "cols x \<in> set seen")
    case True
    then show ?thesis using Cons.IH [of seen] by auto
  next
    case False
    then show ?thesis using Cons.IH [of "cols x # seen"] by auto
  qed
qed

text \<open>
  Claim C7. Of the rows of \<open>all_data\<close> with a given title and price text, the result of
  \<open>get_results_df\<close> holds exactly one, the first in \<open>all_data\<close>, and none when there is
  no such row.
\<close>

theorem get_results_df_keeps_first:
  "filter (\<lambda>r. dedup_key r = k) (get_results_df self)
     = (case find (\<lambda>r. dedup_key r = k) (all_data self) of None \<Rightarrow> [] | Some r \<Rightarrow> [r])"
proof (cases "all_data self")
  case Nil
  then show ?thesis by (simp add: get_results_df_def)
next
  case (Cons x xs)
  then have "get_results_df self
      = sort_key sort_values_key (drop_duplicates dedup_key [] (all_data self))"
    by (simp add: get_results_df_def)
  then show ?thesis
    by (simp add: filter_sort filter_drop_duplicates split: option.splits)
qed

lemma sort_values_key_le:
  "sort_values_key a \<le> sort_values_key b \<longleftrightarrow> spec_ranks_before a b"
  by (auto simp add: sort_values_key_def price_key_def spec_ranks_before_def is_preferred_def
      sort_preferred_def less_eq_prod_def split: option.splits)

text \<open>
  Claim C6. The result of \<open>get_results_df\<close> is ordered by the ranking of the
  specification: preferred builders first, then by ascending numeric price, a listing
  without one last in its tier. The sort is stable: the rows of any one sort key stand in
  the order they have after the removal of duplicates. The rows are the same ones.
\<close>

theorem get_results_df_order:
  "sorted_wrt spec_ranks_before (get_results_df self)
   \<and> filter (\<lambda>r. sort_values_key r = k) (get_results_df self)
       = filter (\<lambda>r. sort_values_key r = k) (drop_duplicates dedup_key [] (all_data self))
   \<and> set (get_results_df self) = set (drop_duplicates dedup_key [] (all_data self))
   \<and> length (get_results_df self) = length (drop_duplicates dedup_key [] (all_data self))"
proof (cases "all_data self")
  case Nil
  then show ?thesis by (simp add: get_results_df_def)
next
  case (Cons x xs)
  then have eq: "get_results_df self
      = sort_key sort_values_key (drop_duplicates dedup_key [] (all_data self))"
    by (simp add: get_results_df_def)
  have "sorted (map sort_values_key (get_results_df self))"
    unfolding eq by (rule sorted_sort_key)
  then have "sorted_wrt (\<lambda>a b. sort_values_key a \<le> sort_values_key b) (get_results_df self)"
    by (simp add: sorted_map)
  then have "sorted_wrt spec_ranks_before (get_results_df self)"
    by (simp add: sort_values_key_le)
  then show ?thesis
    unfolding eq by (simp add: sort_key_stable)
qed

lemma example_keys:
  "sort_values_key row_p5 = (1, 0, 5000000)"
  "sort_values_key row_p9 = (0, 0, 9000000)"
  "sort_values_key row_p3 = (0, 0, 3000000)"
  by (simp_all add: sort_values_key_def price_key_def sort_preferred_def row_p5_def row_p9_def
      row_p3_def empty_property_data_def py_str_def star_yes_def star_def)

lemma example_dedup:
  "drop_duplicates dedup_key [] [row_p5, row_p9, row_p3] = [row_p5, row_p9, row_p3]"
  by (simp add: dedup_key_def row_p5_def row_p9_def row_p3_def empty_property_data_def)

lemma example_order:
  "get_results_df (finder0\<lparr>all_data := [row_p5, row_p9, row_p3]\<rparr>) = [row_p3, row_p9, row_p5]"
proof -
  have "get_results_df (finder0\<lparr>all_data := [row_p5, row_p9, row_p3]\<rparr>)
      = sort_key sort_values_key (drop_duplicates dedup_key [] [row_p5, row_p9, row_p3])"
    by (simp add: get_results_df_def del: drop_duplicates.simps)
  also have "\<dots> = sort_key sort_values_key [row_p5, row_p9, row_p3]"
    by (simp only: example_dedup)
  also have "\<dots> = [row_p3, row_p9, row_p5]"
    by (simp add: example_keys)
  finally show ?thesis .
qed

theorem get_results_df_order_witness:
  "get_results_df (finder0\<lparr>all_data := [row_p5, row_p9, row_p3]\<rparr>) = [row_p3, row_p9, row_p5]
   \<and> sorted_wrt spec_ranks_before [row_p3, row_p9, row_p5]"
  using get_results_df_order [of "finder0\<lparr>all_data := [row_p5, row_p9, row_p3]\<rparr>"]
  by (simp only: example_order simp_thms)

lemma example_dedup2:
  "drop_duplicates dedup_key [] [row_p9, row_p3, row_dup] = [row_p9, row_p3]"
  by (simp add: dedup_key_def row_dup_def row_p9_def row_p3_def empty_property_data_def)

lemma example_keep_first:
  "get_results_df (finder0\<lparr>all_data := [row_p9, row_p3, row_dup]\<rparr>) = [row_p3, row_p9]"
proof -
  have "get_results_df (finder0\<lparr>all_data := [row_p9, row_p3, row_dup]\<rparr>)
      = sort_key sort_values_key (drop_duplicates dedup_key [] [row_p9, row_p3, row_dup])"
    by (simp add: get_results_df_def del: drop_duplicates.simps)
  also have "\<dots> = sort_key sort_values_key [row_p9, row_p3]"
    by (simp only: example_dedup2)
  also have "\<dots> = [row_p3, row_p9]"
    by (simp add: example_keys)
  finally show ?thesis .
qed

theorem get_results_df_keeps_first_witness:
  "filter (\<lambda>r. dedup_key r = (Some ''C'', None))
       (get_results_df (finder0\<lparr>all_data := [row_p9, row_p3, row_dup]\<rparr>)) = [row_p3]
   \<and> row_dup \<noteq> row_p3 \<and> dedup_key row_dup = dedup_key row_p3"
  using get_results_df_keeps_first [of "(Some ''C'', None)"
      "finder0\<lparr>all_data := [row_p9, row_p3, row_dup]\<rparr>"]
  by (simp add: dedup_key_def row_dup_def row_p9_def row_p3_def empty_property_data_def)


subsection \<open>The BHK value of a record\<close>

lemma bhk_match_at_shape: "bhk_match_at s = Some ds \<Longrightarrow> ds \<noteq> [] \<and> list_all is_digit ds"
  by (auto simp add: bhk_match_at_def Let_def list_all_iff split: if_splits dest: set_takeWhileD)

lemma bhk_search_shape: "bhk_search s = Some ds \<Longrightarrow> ds \<noteq> [] \<and> list_all is_digit ds"
proof (induction s)
  case Nil
  then show ?case by simp
next
  case (Cons c cs)
  then show ?case
    by (cases "bhk_match_at (c # cs)") (auto dest: bhk_match_at_shape)
qed

lemma extract_bhk_shape: "bhk_shape (extract_bhk t)"
  by (auto simp add: bhk_shape_def extract_bhk_def split: option.splits dest: bhk_search_shape)

lemma bhk_found_99acres_five: "bhk_found_99acres t \<in> set five_values"
  by (simp add: bhk_found_99acres_def five_values_def)

lemma property_99acres_bhk:
  "property_99acres self frag = Some pd \<Longrightarrow> \<exists>v. bhk pd = Some v \<and> v \<in> set five_values"
  by (auto simp add: property_99acres_def Let_def bhk_found_99acres_five split: if_splits)

lemma add_property_inv:
  "bhk_inv w \<Longrightarrow> bhk_shape (bhk pd) \<Longrightarrow> bhk_inv (snd (add_property src pd w))"
  by (auto simp add: bhk_inv_def add_property_def Let_def scraped_bhk_shape_def
      split: option.splits)

lemma listing_validated_inv:
  "bhk_inv w \<Longrightarrow> bhk_shape (bhk pd) \<Longrightarrow> bhk_inv (snd (listing_validated site pd w))"
  using add_property_inv [of w pd site]
  by (auto simp add: listing_validated_def bhk_inv_def split: prod.splits option.splits)

lemma listing_magicbricks_inv: "bhk_inv w \<Longrightarrow> bhk_inv (snd (listing_magicbricks frag w))"
  by (simp add: listing_magicbricks_def listing_validated_inv property_magicbricks_def
      extract_bhk_shape)

lemma listing_housing_inv: "bhk_inv w \<Longrightarrow> bhk_inv (snd (listing_housing frag w))"
  by (simp add: listing_housing_def listing_validated_inv property_housing_def
      extract_bhk_shape)

lemma boxes_validated_inv:
  assumes "\<And>frag w. bhk_inv w \<Longrightarrow> bhk_inv (snd (listing frag w))"
  shows "bhk_inv w \<Longrightarrow> bhk_inv (boxes_validated listing frags w)"
  by (induction frags arbitrary: w) (simp_all add: assms)

lemma bhk_inv_message: "bhk_inv (fst w, (snd w)\<lparr>message := m\<rparr>) = bhk_inv w"
  by (simp add: bhk_inv_def)

lemma bhk_inv_current_site: "bhk_inv (fst w, (snd w)\<lparr>current_site := m\<rparr>) = bhk_inv w"
  by (simp add: bhk_inv_def)

lemma pages_validated_inv:
  assumes "\<And>frag w. bhk_inv w \<Longrightarrow> bhk_inv (snd (listing frag w))"
  shows "bhk_inv w \<Longrightarrow> bhk_inv (pages_validated site listing fetch max_pages ps w)"
proof (induction ps arbitrary: w)
  case Nil
  then show ?case by simp
next
  case (Cons p ps)
  then show ?case
    by (simp add: Let_def bhk_inv_message boxes_validated_inv [OF assms] split: page.splits)
qed

lemma scrape_99acres_inv: "bhk_inv w \<Longrightarrow> bhk_inv (scrape_99acres fetch max_pages w)"
  using scrape_99acres_world [of fetch max_pages w]
  by (simp add: bhk_inv_def)

lemma scrape_all_inv: "bhk_inv w \<Longrightarrow> bhk_inv (snd (scrape_all e n sites w))"
  by (simp add: scrape_all_def Let_def scrape_99acres_inv scrape_magicbricks_def
      scrape_housing_def bhk_inv_current_site
      pages_validated_inv [OF listing_magicbricks_inv] pages_validated_inv [OF listing_housing_inv])

lemma set_drop_duplicates: "set (drop_duplicates cols seen xs) \<subseteq> set xs"
  by (induction xs arbitrary: seen) auto

lemma set_get_results_df: "set (get_results_df self) \<subseteq> set (all_data self)"
  by (simp add: get_results_df_def Let_def set_drop_duplicates)

lemma scrape_thread_bhk:
  "list_all scraped_bhk_shape
     (case results (scrape_thread e a st) of None \<Rightarrow> [] | Some rs \<Rightarrow> rs)"
proof -
  let ?w0 = "(new_finder a, st\<lparr>results := Some []\<rparr>)"
  have "bhk_inv ?w0"
    by (simp add: bhk_inv_def new_finder_def)
  then have inv: "bhk_inv (snd (scrape_all e (t_pages a) (Some (t_sites a)) ?w0))"
    by (rule scrape_all_inv)
  obtain r w where run: "scrape_all e (t_pages a) (Some (t_sites a)) ?w0 = (r, w)"
    by (cases "scrape_all e (t_pages a) (Some (t_sites a)) ?w0")
  show ?thesis
  proof (cases r)
    case None
    have "list_all (\<lambda>pd. bhk_shape (bhk pd)) (get_results_df (fst w))"
      using inv run set_get_results_df [of "fst w"]
      by (auto simp add: bhk_inv_def list_all_iff)
    then show ?thesis
      using run None
      by (simp add: scrape_thread_def Let_def list_all_iff scraped_bhk_shape_def)
  next
    case (Some ex)
    then show ?thesis
      using inv run by (simp add: scrape_thread_def bhk_inv_def)
  qed
qed

text \<open>
  Claim C4, as the code has it. The BHK value of a record of the MagicBricks or the
  Housing.com adapter is \<open>None\<close> or a non-empty string of digits; that of a record of
  the 99acres adapter is one of the five values; and every row of the results of a run
  is a scraped row with a value of the first kind.
\<close>

theorem adapters_bhk_shape:
  "bhk_shape (bhk (property_magicbricks frag))
   \<and> bhk_shape (bhk (property_housing frag))
   \<and> (case property_99acres self frag of
         None \<Rightarrow> True
       | Some pd \<Rightarrow> (case bhk pd of None \<Rightarrow> False | Some v \<Rightarrow> v \<in> set five_values))
   \<and> list_all scraped_bhk_shape
        (case results (scrape_thread e a st) of None \<Rightarrow> [] | Some rs \<Rightarrow> rs)"
  using property_99acres_bhk [of self frag]
  by (auto simp add: property_magicbricks_def property_housing_def extract_bhk_shape
      scrape_thread_bhk split: option.splits)

lemma bhk_villa: "bhk (property_magicbricks fragment_villa) = Some ''5''"
  by code_simp

lemma run_studio:
  "map (\<lambda>row. case row of Scraped pd \<Rightarrow> (property pd, bhk pd) | Imported cells \<Rightarrow> (None, None))
     (case results (scrape_thread env_studio only_magicbricks started) of
        None \<Rightarrow> [] | Some rs \<Rightarrow> rs) = [(Some ''Studio Apartment'', None)]"
  by code_simp

theorem adapters_bhk_shape_witness:
  "bhk_shape (bhk (property_magicbricks fragment_villa))
   \<and> bhk (property_magicbricks fragment_villa) = Some ''5''
   \<and> list_all scraped_bhk_shape
        (case results (scrape_thread env_studio only_magicbricks started) of
           None \<Rightarrow> [] | Some rs \<Rightarrow> rs)"
  using adapters_bhk_shape [of fragment_villa finder0 env_studio only_magicbricks started]
  by (simp add: bhk_villa)

text \<open>
  A run over one MagicBricks page with a studio apartment ends with a row whose BHK value
  is \<open>None\<close>, and the record of a villa with five bedrooms has the value 5; neither is
  one of the five values.
\<close>

theorem bhk_outside_five_values:
  "map (\<lambda>row. case row of Scraped pd \<Rightarrow> (property pd, bhk pd) | Imported cells \<Rightarrow> (None, None))
     (case results (scrape_thread env_studio only_magicbricks started) of
        None \<Rightarrow> [] | Some rs \<Rightarrow> rs) = [(Some ''Studio Apartment'', None)]
   \<and> bhk (property_magicbricks fragment_villa) = Some ''5''
   \<and> ''5'' \<notin> set five_values"
  by (simp add: run_studio bhk_villa five_values_def)

end
